theory Spec2Isabelle
  imports Main "HOL-Library.Word"
begin

section \<open>Python values used by the message classes\<close>

text \<open>
  Buffers are Python \<^verbatim>\<open>bytes\<close>: sequences of integers in \<open>0..255\<close>. Offsets, lengths and
  the other counters are Python integers, hence \<open>int\<close>. An optional argument whose default
  is \<^verbatim>\<open>None\<close> is an \<open>option\<close>.
\<close>

type_synonym byte = "8 word"
type_synonym bytes = "byte list"

text \<open>
  The values an option's \<^verbatim>\<open>iaid\<close> attribute can hold, with Python's truth value:
  \<^verbatim>\<open>None\<close>, the integer \<open>0\<close> and the empty byte string are false.
\<close>

datatype pyval = PyNone | PyInt int | PyBytes bytes

fun truthy :: "pyval \<Rightarrow> bool" where
  "truthy PyNone = False"
| "truthy (PyInt i) = (i \<noteq> 0)"
| "truthy (PyBytes bs) = (bs \<noteq> [])"

text \<open>
  Every \<^verbatim>\<open>raise\<close> of the source is a value. The containment errors keep the arguments of
  their format string, in the order in which the source passes them to \<^verbatim>\<open>format\<close>.
\<close>

datatype error =
    IndexError
  | TypeError
  | AttributeError
  | AddressValueError
  | ValueError string
  | CannotContain string string
      \<comment> \<open>\<^verbatim>\<open>"{} cannot contain {}"\<close>\<close>
  | MayOnlyContainOne string string
      \<comment> \<open>\<^verbatim>\<open>"{} may only contain 1 {}"\<close>\<close>
  | MayOnlyContain string int string
      \<comment> \<open>\<^verbatim>\<open>"{} may only contain {} {}s"\<close>\<close>
  | MustContainAtLeastOne string string
      \<comment> \<open>\<^verbatim>\<open>"{} must contain at least 1 {}"\<close>\<close>
  | MustContainAtLeast string int string
      \<comment> \<open>\<^verbatim>\<open>"{} must contain at least {} {}s"\<close>\<close>
  | IAIDNotUnique pyval string
      \<comment> \<open>\<^verbatim>\<open>"IAID {} of {} is not unique"\<close>\<close>

text \<open>\<^verbatim>\<open>buffer[i]\<close>: a negative index counts from the end, an index out of range raises.\<close>

definition py_index :: "'a list \<Rightarrow> int \<Rightarrow> error + 'a" where
  "py_index xs i =
     (if 0 \<le> i \<and> i < int (length xs) then Inr (xs ! nat i)
      else if i < 0 \<and> - int (length xs) \<le> i then Inr (xs ! nat (int (length xs) + i))
      else Inl IndexError)"

text \<open>\<^verbatim>\<open>buffer[i:j]\<close>: both bounds are moved into \<open>0..len\<close>, and the slice never raises.\<close>

definition slice_bound :: "nat \<Rightarrow> int \<Rightarrow> nat" where
  "slice_bound n i = (if i < 0 then nat (max 0 (int n + i)) else min n (nat i))"

definition py_slice :: "'a list \<Rightarrow> int \<Rightarrow> int \<Rightarrow> 'a list" where
  "py_slice xs i j =
     (let a = slice_bound (length xs) i; b = slice_bound (length xs) j
      in take (b - a) (drop a xs))"

section \<open>Occurrence constraints (\<^verbatim>\<open>dhcp/parsing.py\<close>)\<close>

definition infinite :: int where
  "infinite = 2 ^ 31 - 1"

text \<open>
  \<^verbatim>\<open>cls._may_contain.items()\<close> is the sequence of the registered classes with their
  \<open>(min_occurrence, max_occurrence)\<close>, in the order in which the mapping yields them.
  A class is known by its name; \<open>isinstance\<close> is a parameter, since the class hierarchy of
  the elements is declared where the elements are.
\<close>

type_synonym may_contain_items = "(string \<times> int \<times> int) list"

fun get_element_class :: "('e \<Rightarrow> string \<Rightarrow> bool) \<Rightarrow> may_contain_items \<Rightarrow> 'e \<Rightarrow> string option" where
  "get_element_class isinstance [] element = None"
| "get_element_class isinstance ((klass, (min_occurrence, max_occurrence)) # items) element =
     (if max_occurrence < 1 then None
      else if isinstance element klass then Some klass
      else get_element_class isinstance items element)"

definition may_contain_element :: "('e \<Rightarrow> string \<Rightarrow> bool) \<Rightarrow> may_contain_items \<Rightarrow> 'e \<Rightarrow> bool" where
  "may_contain_element isinstance items element =
     (get_element_class isinstance items element \<noteq> None)"

text \<open>
  The first loop of \<^verbatim>\<open>validate_contains\<close>: the counter maps a class to the number of
  elements classified as it so far (a \<^verbatim>\<open>collections.Counter\<close> reads \<open>0\<close> for a missing key).
\<close>

fun count_occurrence ::
  "('e \<Rightarrow> string \<Rightarrow> bool) \<Rightarrow> ('e \<Rightarrow> string) \<Rightarrow> string \<Rightarrow> may_contain_items \<Rightarrow>
   'e list \<Rightarrow> (string \<Rightarrow> int) \<Rightarrow> error + (string \<Rightarrow> int)" where
  "count_occurrence isinstance class_name self_name items [] occurrence_counters =
     Inr occurrence_counters"
| "count_occurrence isinstance class_name self_name items (element # elements) occurrence_counters =
     (case get_element_class isinstance items element of
        None \<Rightarrow> Inl (CannotContain self_name (class_name element))
      | Some element_class \<Rightarrow>
          count_occurrence isinstance class_name self_name items elements
            (occurrence_counters(element_class := occurrence_counters element_class + 1)))"

text \<open>The second loop: the first registered class whose count breaks a bound raises.\<close>

fun check_occurrence :: "string \<Rightarrow> (string \<Rightarrow> int) \<Rightarrow> may_contain_items \<Rightarrow> error + unit" where
  "check_occurrence self_name occurrence_counters [] = Inr ()"
| "check_occurrence self_name occurrence_counters
     ((element_class, (min_occurrence, max_occurrence)) # items) =
     (let count = occurrence_counters element_class in
      if count > max_occurrence then
        (if max_occurrence = 1 then Inl (MayOnlyContainOne self_name element_class)
         else Inl (MayOnlyContain self_name max_occurrence element_class))
      else if count < min_occurrence then
        (if min_occurrence = 1 then Inl (MustContainAtLeastOne self_name element_class)
         else Inl (MustContainAtLeast self_name max_occurrence element_class))
      else check_occurrence self_name occurrence_counters items)"

definition validate_contains ::
  "('e \<Rightarrow> string \<Rightarrow> bool) \<Rightarrow> ('e \<Rightarrow> string) \<Rightarrow> string \<Rightarrow> may_contain_items \<Rightarrow>
   'e list \<Rightarrow> error + unit" where
  "validate_contains isinstance class_name self_name items elements =
     (case count_occurrence isinstance class_name self_name items elements (\<lambda>k. 0) of
        Inl e \<Rightarrow> Inl e
      | Inr occurrence_counters \<Rightarrow> check_occurrence self_name occurrence_counters items)"

section \<open>Messages (\<^verbatim>\<open>dhcpkit/ipv6/messages.py\<close>)\<close>

definition MSG_SOLICIT :: int where "MSG_SOLICIT = 1"
definition MSG_ADVERTISE :: int where "MSG_ADVERTISE = 2"
definition MSG_REQUEST :: int where "MSG_REQUEST = 3"
definition MSG_CONFIRM :: int where "MSG_CONFIRM = 4"
definition MSG_RENEW :: int where "MSG_RENEW = 5"
definition MSG_REBIND :: int where "MSG_REBIND = 6"
definition MSG_REPLY :: int where "MSG_REPLY = 7"
definition MSG_RELEASE :: int where "MSG_RELEASE = 8"
definition MSG_DECLINE :: int where "MSG_DECLINE = 9"
definition MSG_RECONFIGURE :: int where "MSG_RECONFIGURE = 10"
definition MSG_INFORMATION_REQUEST :: int where "MSG_INFORMATION_REQUEST = 11"
definition MSG_RELAY_FORW :: int where "MSG_RELAY_FORW = 12"
definition MSG_RELAY_REPL :: int where "MSG_RELAY_REPL = 13"

text \<open>The concrete classes: eleven subclasses of \<^verbatim>\<open>ClientServerMessage\<close>, two of
  \<^verbatim>\<open>RelayServerMessage\<close>, and \<^verbatim>\<open>UnknownMessage\<close>.\<close>

datatype client_server_class =
    SolicitMessage | AdvertiseMessage | RequestMessage | ConfirmMessage | RenewMessage
  | RebindMessage | ReplyMessage | ReleaseMessage | DeclineMessage | ReconfigureMessage
  | InformationRequestMessage

datatype relay_server_class = RelayForwardMessage | RelayReplyMessage

datatype message_class =
    UnknownMessage_class
  | ClientServer_class client_server_class
  | RelayServer_class relay_server_class

fun client_server_message_type :: "client_server_class \<Rightarrow> int" where
  "client_server_message_type SolicitMessage = MSG_SOLICIT"
| "client_server_message_type AdvertiseMessage = MSG_ADVERTISE"
| "client_server_message_type RequestMessage = MSG_REQUEST"
| "client_server_message_type ConfirmMessage = MSG_CONFIRM"
| "client_server_message_type RenewMessage = MSG_RENEW"
| "client_server_message_type RebindMessage = MSG_REBIND"
| "client_server_message_type ReplyMessage = MSG_REPLY"
| "client_server_message_type ReleaseMessage = MSG_RELEASE"
| "client_server_message_type DeclineMessage = MSG_DECLINE"
| "client_server_message_type ReconfigureMessage = MSG_RECONFIGURE"
| "client_server_message_type InformationRequestMessage = MSG_INFORMATION_REQUEST"

fun relay_server_message_type :: "relay_server_class \<Rightarrow> int" where
  "relay_server_message_type RelayForwardMessage = MSG_RELAY_FORW"
| "relay_server_message_type RelayReplyMessage = MSG_RELAY_REPL"

fun class_name :: "message_class \<Rightarrow> string" where
  "class_name UnknownMessage_class = ''UnknownMessage''"
| "class_name (ClientServer_class SolicitMessage) = ''SolicitMessage''"
| "class_name (ClientServer_class AdvertiseMessage) = ''AdvertiseMessage''"
| "class_name (ClientServer_class RequestMessage) = ''RequestMessage''"
| "class_name (ClientServer_class ConfirmMessage) = ''ConfirmMessage''"
| "class_name (ClientServer_class RenewMessage) = ''RenewMessage''"
| "class_name (ClientServer_class RebindMessage) = ''RebindMessage''"
| "class_name (ClientServer_class ReplyMessage) = ''ReplyMessage''"
| "class_name (ClientServer_class ReleaseMessage) = ''ReleaseMessage''"
| "class_name (ClientServer_class DeclineMessage) = ''DeclineMessage''"
| "class_name (ClientServer_class ReconfigureMessage) = ''ReconfigureMessage''"
| "class_name (ClientServer_class InformationRequestMessage) = ''InformationRequestMessage''"
| "class_name (RelayServer_class RelayForwardMessage) = ''RelayForwardMessage''"
| "class_name (RelayServer_class RelayReplyMessage) = ''RelayReplyMessage''"

text \<open>
  \<^verbatim>\<open>ipaddress.IPv6Address\<close> belongs to Python's library: an opaque value built from exactly 16
  bytes, which \<^verbatim>\<open>packed\<close> gives back. An address is multicast when it lies in \<^verbatim>\<open>ff00::/8\<close>.
\<close>

datatype ipv6address = Packed (packed: bytes)

definition IPv6Address :: "bytes \<Rightarrow> error + ipv6address" where
  "IPv6Address address = (if length address = 16 then Inr (Packed address) else Inl AddressValueError)"

definition is_multicast :: "ipv6address \<Rightarrow> bool" where
  "is_multicast a = (take 1 (packed a) = [0xFF])"

text \<open>
  Modelled from the spec: the option classes (\<^verbatim>\<open>dhcpkit.ipv6.options\<close>) are not among the
  sources. An option is a structured element that may expose \<^verbatim>\<open>iaid\<close> and
  \<^verbatim>\<open>echo_to_relay\<close>; the relay-message option exposes \<^verbatim>\<open>relayed_message\<close>. The instance
  attribute \<^verbatim>\<open>message_type\<close> of a relay message is a field, because
  \<^verbatim>\<open>RelayServerMessage.load_from\<close> assigns it; a client-server message only has the
  attribute of its class.
\<close>

datatype message =
    UnknownMessage (message_type: int) (message_data: bytes)
  | ClientServerMessage (client_server_class: client_server_class) (transaction_id: bytes)
      (options: "option_elem list")
  | RelayServerMessage (relay_server_class: relay_server_class) (message_type: int)
      (hop_count: int) (link_address: "ipv6address option") (peer_address: "ipv6address option")
      (options: "option_elem list")
and option_elem =
    RelayMessageOption (echo_to_relay: bool) (relayed_message: message)
  | OtherOption (option_type: int) (echo_to_relay: bool) (iaid: pyval) (option_data: bytes)

fun class_of :: "message \<Rightarrow> message_class" where
  "class_of (UnknownMessage mt md) = UnknownMessage_class"
| "class_of (ClientServerMessage c t os) = ClientServer_class c"
| "class_of (RelayServerMessage c mt hc la pa os) = RelayServer_class c"

text \<open>\<^verbatim>\<open>getattr(option, 'iaid', None)\<close>\<close>

fun getattr_iaid :: "option_elem \<Rightarrow> pyval" where
  "getattr_iaid (RelayMessageOption e m) = PyNone"
| "getattr_iaid (OtherOption t e i d) = i"

text \<open>
  Modelled from the spec: what the message classes call on the absent option module, as
  parameters: \<^verbatim>\<open>isinstance(option, klass)\<close> and the option's class name, \<^verbatim>\<open>option.validate()\<close>,
  \<^verbatim>\<open>option.save()\<close>, \<^verbatim>\<open>Option.parse(buffer, offset=...)\<close>, and the \<^verbatim>\<open>_may_contain\<close> table
  of each message class, which that module fills with \<^verbatim>\<open>add_may_contain\<close>.
\<close>

record option_env =
  isinstance_option :: "option_elem \<Rightarrow> string \<Rightarrow> bool"
  option_class_name :: "option_elem \<Rightarrow> string"
  option_validate :: "option_elem \<Rightarrow> error + unit"
  option_save :: "option_elem \<Rightarrow> error + bytes"
  option_parse :: "bytes \<Rightarrow> int \<Rightarrow> error + (int \<times> option_elem)"
  may_contain :: "message_class \<Rightarrow> may_contain_items"

subsection \<open>Validation\<close>

text \<open>
  In the equations below the fields of \<open>self\<close> are bound by pattern: \<open>mt\<close> is
  \<^verbatim>\<open>self.message_type\<close>, \<open>md\<close> \<^verbatim>\<open>self.message_data\<close>, \<open>tid\<close> \<^verbatim>\<open>self.transaction_id\<close>,
  \<open>hc\<close> \<^verbatim>\<open>self.hop_count\<close>, \<open>la\<close> and \<open>pa\<close> the link and peer address, \<open>opts\<close>
  \<^verbatim>\<open>self.options\<close>.
\<close>

text \<open>\<^verbatim>\<open>for option in self.options: option.validate()\<close>\<close>

fun validate_options :: "option_env \<Rightarrow> option_elem list \<Rightarrow> error + unit" where
  "validate_options env [] = Inr ()"
| "validate_options env (opt # opts) =
     (case option_validate env opt of
        Inl e \<Rightarrow> Inl e
      | Inr u \<Rightarrow> validate_options env opts)"

text \<open>The uniqueness loop of \<^verbatim>\<open>ClientServerMessage.validate\<close>; \<open>iaids\<close> is the dictionary
  from the classified class to the list of the identifiers seen (\<^verbatim>\<open>setdefault\<close> gives the
  empty list for a new key).\<close>

fun unique_iaids ::
  "option_env \<Rightarrow> message_class \<Rightarrow> option_elem list \<Rightarrow> (string option \<Rightarrow> pyval list) \<Rightarrow> error + unit" where
  "unique_iaids env cls [] iaids = Inr ()"
| "unique_iaids env cls (opt # opts) iaids =
     (let iaid = getattr_iaid opt in
      if truthy iaid then
        (let option_class = get_element_class (isinstance_option env) (may_contain env cls) opt;
             existing = iaids option_class
         in if iaid \<in> set existing then
              (case option_class of
                 None \<Rightarrow> Inl AttributeError
               | Some k \<Rightarrow> Inl (IAIDNotUnique iaid k))
            else unique_iaids env cls opts (iaids(option_class := existing @ [iaid])))
      else unique_iaids env cls opts iaids)"

definition validate_contains_options :: "option_env \<Rightarrow> message_class \<Rightarrow> option_elem list \<Rightarrow> error + unit" where
  "validate_contains_options env cls elements =
     validate_contains (isinstance_option env) (option_class_name env) (class_name cls)
       (may_contain env cls) elements"

fun validate :: "option_env \<Rightarrow> message \<Rightarrow> error + unit" where
  "validate env (UnknownMessage mt md) =
     (if \<not> (0 \<le> mt \<and> mt < 2 ^ 8) then
        Inl (ValueError ''Message type must be an unsigned 8-bit integer'')
      else Inr ())"
| "validate env (ClientServerMessage cls tid opts) =
     (if length tid \<noteq> 3 then Inl (ValueError ''Transaction-id must be 3 bytes'')
      else case validate_contains_options env (ClientServer_class cls) opts of
        Inl e \<Rightarrow> Inl e
      | Inr u \<Rightarrow>
          (case validate_options env opts of
             Inl e \<Rightarrow> Inl e
           | Inr u \<Rightarrow> unique_iaids env (ClientServer_class cls) opts (\<lambda>k. [])))"
| "validate env (RelayServerMessage cls mt hc la pa opts) =
     (if \<not> (0 \<le> hc \<and> hc < 2 ^ 8) then
        Inl (ValueError ''Hop-count must be an unsigned 8 bit integer'')
      else if (case la of None \<Rightarrow> True | Some a \<Rightarrow> is_multicast a) then
        Inl (ValueError ''Link-address must be a non-multicast IPv6 address'')
      else if (case pa of None \<Rightarrow> True | Some a \<Rightarrow> is_multicast a) then
        Inl (ValueError ''Peer-address must be a non-multicast IPv6 address'')
      else case validate_contains_options env (RelayServer_class cls) opts of
        Inl e \<Rightarrow> Inl e
      | Inr u \<Rightarrow> validate_options env opts)"

subsection \<open>Saving\<close>

text \<open>\<^verbatim>\<open>bytearray.append\<close> takes an integer in \<open>range(256)\<close>.\<close>

definition append_byte :: "bytes \<Rightarrow> int \<Rightarrow> error + bytes" where
  "append_byte buffer i =
     (if 0 \<le> i \<and> i < 256 then Inr (buffer @ [word_of_int i])
      else Inl (ValueError ''byte must be in range(0, 256)''))"

text \<open>\<^verbatim>\<open>for option in self.options: buffer.extend(option.save())\<close>\<close>

fun save_options :: "option_env \<Rightarrow> option_elem list \<Rightarrow> bytes \<Rightarrow> error + bytes" where
  "save_options env [] buffer = Inr buffer"
| "save_options env (opt # opts) buffer =
     (case option_save env opt of
        Inl e \<Rightarrow> Inl e
      | Inr saved \<Rightarrow> save_options env opts (buffer @ saved))"

fun save :: "option_env \<Rightarrow> message \<Rightarrow> error + bytes" where
  "save env (UnknownMessage mt md) =
     (case validate env (UnknownMessage mt md) of
        Inl e \<Rightarrow> Inl e
      | Inr u \<Rightarrow>
          (case append_byte [] mt of
             Inl e \<Rightarrow> Inl e
           | Inr buffer \<Rightarrow> Inr (buffer @ md)))"
| "save env (ClientServerMessage cls tid opts) =
     (case validate env (ClientServerMessage cls tid opts) of
        Inl e \<Rightarrow> Inl e
      | Inr u \<Rightarrow>
          (case append_byte [] (client_server_message_type cls) of
             Inl e \<Rightarrow> Inl e
           | Inr buffer \<Rightarrow> save_options env opts (buffer @ tid)))"
| "save env (RelayServerMessage cls mt hc la pa opts) =
     (case validate env (RelayServerMessage cls mt hc la pa opts) of
        Inl e \<Rightarrow> Inl e
      | Inr u \<Rightarrow>
          (case append_byte [] mt of
             Inl e \<Rightarrow> Inl e
           | Inr buffer1 \<Rightarrow>
               (case append_byte buffer1 hc of
                  Inl e \<Rightarrow> Inl e
                | Inr buffer2 \<Rightarrow>
                    (case (la, pa) of
                       (Some l, Some p) \<Rightarrow> save_options env opts (buffer2 @ packed l @ packed p)
                     | _ \<Rightarrow> Inl AttributeError))))"

subsection \<open>Loading\<close>

text \<open>\<^verbatim>\<open>length or (len(buffer) - offset)\<close>: a length of \<open>0\<close> is false, like \<^verbatim>\<open>None\<close>.\<close>

definition length_or :: "int option \<Rightarrow> int \<Rightarrow> int" where
  "length_or len d = (case len of None \<Rightarrow> d | Some l \<Rightarrow> if l = 0 then d else l)"

text \<open>
  The option loop, written twice in the source with the same text (in
  \<^verbatim>\<open>ClientServerMessage.load_from\<close> and in \<^verbatim>\<open>RelayServerMessage.load_from\<close>):
  \<^verbatim>\<open>
  while max_length > my_offset:
      used_buffer, option = Option.parse(buffer, offset=offset + my_offset)
      self.options.append(option)
      my_offset += used_buffer
  \<close>
  Nothing in the loop bounds the number of rounds (an option parser that uses no bytes
  keeps it running), so not returning is the value \<open>None\<close>.
\<close>

partial_function (option) parse_options ::
  "option_env \<Rightarrow> bytes \<Rightarrow> int \<Rightarrow> int \<Rightarrow> int \<Rightarrow> option_elem list \<Rightarrow>
   (error + (int \<times> option_elem list)) option" where
  "parse_options env buffer offset max_length my_offset opts =
     (if max_length > my_offset then
        (case option_parse env buffer (offset + my_offset) of
           Inl e \<Rightarrow> Some (Inl e)
         | Inr used_and_option \<Rightarrow>
             parse_options env buffer offset max_length
               (my_offset + fst used_and_option) (opts @ [snd used_and_option]))
      else Some (Inr (my_offset, opts)))"

declare parse_options.simps [code]

fun load_from ::
  "option_env \<Rightarrow> message \<Rightarrow> bytes \<Rightarrow> int \<Rightarrow> int option \<Rightarrow> (error + (int \<times> message)) option" where
  "load_from env (UnknownMessage mt md) buffer offset len =
     (case py_index buffer (offset + 0) of
        Inl e \<Rightarrow> Some (Inl e)
      | Inr b \<Rightarrow>
          (case len of
             None \<Rightarrow> Some (Inl TypeError)
           | Some l \<Rightarrow>
               (let my_offset = 1;
                    message_data_len = l - my_offset;
                    self = UnknownMessage (uint b)
                      (py_slice buffer (offset + my_offset) (offset + my_offset + message_data_len))
                in case validate env self of
                     Inl e \<Rightarrow> Some (Inl e)
                   | Inr u \<Rightarrow> Some (Inr (my_offset + message_data_len, self)))))"
| "load_from env (ClientServerMessage cls tid opts) buffer offset len =
     (case py_index buffer (offset + 0) of
        Inl e \<Rightarrow> Some (Inl e)
      | Inr b \<Rightarrow>
          if uint b \<noteq> client_server_message_type cls then
            Some (Inl (ValueError ''The provided buffer does not contain {} data''))
          else
            (case parse_options env buffer offset
                    (length_or len (int (length buffer) - offset)) 4 opts of
               None \<Rightarrow> None
             | Some (Inl e) \<Rightarrow> Some (Inl e)
             | Some (Inr (my_offset, opts')) \<Rightarrow>
                 (let self = ClientServerMessage cls (py_slice buffer (offset + 1) (offset + 1 + 3)) opts'
                  in case validate env self of
                       Inl e \<Rightarrow> Some (Inl e)
                     | Inr u \<Rightarrow> Some (Inr (my_offset, self)))))"
| "load_from env (RelayServerMessage cls mt hc la pa opts) buffer offset len =
     (case py_index buffer (offset + 0) of
        Inl e \<Rightarrow> Some (Inl e)
      | Inr b \<Rightarrow>
          (case py_index buffer (offset + 1) of
             Inl e \<Rightarrow> Some (Inl e)
           | Inr h \<Rightarrow>
               (case IPv6Address (py_slice buffer (offset + 2) (offset + 2 + 16)) of
                  Inl e \<Rightarrow> Some (Inl e)
                | Inr link \<Rightarrow>
                    (case IPv6Address (py_slice buffer (offset + 18) (offset + 18 + 16)) of
                       Inl e \<Rightarrow> Some (Inl e)
                     | Inr peer \<Rightarrow>
                         (case parse_options env buffer offset
                                 (length_or len (int (length buffer) - offset)) 34 opts of
                            None \<Rightarrow> None
                          | Some (Inl e) \<Rightarrow> Some (Inl e)
                          | Some (Inr (my_offset, opts')) \<Rightarrow>
                              (let self = RelayServerMessage cls (uint b) (uint h)
                                            (Some link) (Some peer) opts'
                               in case validate env self of
                                    Inl e \<Rightarrow> Some (Inl e)
                                  | Inr u \<Rightarrow> Some (Inr (my_offset, self))))))))"

subsection \<open>Dispatch on the wire tag\<close>

text \<open>
  Modelled from the spec: the registry (\<^verbatim>\<open>dhcpkit.ipv6.message_registry\<close>) is not among the
  sources. After the thirteen \<^verbatim>\<open>register\<close> calls that end \<^verbatim>\<open>messages.py\<close> it maps each tag
  \<open>1..13\<close> to the class that has it as \<^verbatim>\<open>message_type\<close>.
\<close>

definition registry :: "(int \<times> message_class) list" where
  "registry =
     map (\<lambda>c. (client_server_message_type c, ClientServer_class c))
       [SolicitMessage, AdvertiseMessage, RequestMessage, ConfirmMessage, RenewMessage,
        RebindMessage, ReplyMessage, ReleaseMessage, DeclineMessage, ReconfigureMessage,
        InformationRequestMessage]
     @ map (\<lambda>c. (relay_server_message_type c, RelayServer_class c))
         [RelayForwardMessage, RelayReplyMessage]"

definition determine_class :: "bytes \<Rightarrow> int \<Rightarrow> error + message_class" where
  "determine_class buffer offset =
     (case py_index buffer offset of
        Inl e \<Rightarrow> Inl e
      | Inr b \<Rightarrow>
          (case map_of registry (uint b) of
             None \<Rightarrow> Inr UnknownMessage_class
           | Some c \<Rightarrow> Inr c))"

text \<open>
  \<^verbatim>\<open>element_class()\<close>: the call of the constructor with no argument.
  \<^verbatim>\<open>UnknownMessage.__init__(self, message_type: int, message_data: bytes=b'')\<close> has a
  parameter without default, so the call raises \<^verbatim>\<open>TypeError\<close>; the other constructors have
  a default for every parameter (\<^verbatim>\<open>options or []\<close> is the empty list).
\<close>

fun new_element :: "message_class \<Rightarrow> error + message" where
  "new_element UnknownMessage_class = Inl TypeError"
| "new_element (ClientServer_class c) = Inr (ClientServerMessage c [0, 0, 0] [])"
| "new_element (RelayServer_class c) =
     Inr (RelayServerMessage c (relay_server_message_type c) 0 None None [])"

text \<open>
  \<^verbatim>\<open>parse\<close> is inherited from the base class. \<^verbatim>\<open>Message\<close> names its base
  \<^verbatim>\<open>dhcpkit.protocol_element.ProtocolElement\<close>, which is not among the sources; the method
  is the one of \<^verbatim>\<open>StructuredElement\<close> in \<^verbatim>\<open>dhcp/parsing.py\<close>, whose contract the
  specification describes.
\<close>

definition parse :: "option_env \<Rightarrow> bytes \<Rightarrow> int \<Rightarrow> int option \<Rightarrow> (error + (int \<times> message)) option" where
  "parse env buffer offset len =
     (case determine_class buffer offset of
        Inl e \<Rightarrow> Some (Inl e)
      | Inr element_class \<Rightarrow>
          (case new_element element_class of
             Inl e \<Rightarrow> Some (Inl e)
           | Inr element \<Rightarrow> load_from env element buffer offset len))"

subsection \<open>Wrapping a response for the relays\<close>

text \<open>
  \<^verbatim>\<open>wrap_response\<close> is a method of \<^verbatim>\<open>RelayForwardMessage\<close> only: on any other message the
  attribute lookup fails. \<open>wrap_options\<close> is its loop over \<^verbatim>\<open>self.options\<close>, with
  \<^verbatim>\<open>my_response.options\<close> as accumulator. The relay-message option built by
  \<^verbatim>\<open>RelayMessageOption(relayed_message=...)\<close> is not marked \<^verbatim>\<open>echo_to_relay\<close>.
\<close>

fun wrap_response :: "message \<Rightarrow> message \<Rightarrow> error + message"
and wrap_options :: "option_elem list \<Rightarrow> message \<Rightarrow> option_elem list \<Rightarrow> error + option_elem list" where
  "wrap_response (RelayServerMessage RelayForwardMessage mt hc la pa opts) response =
     (case wrap_options opts response [] of
        Inl e \<Rightarrow> Inl e
      | Inr my_options \<Rightarrow>
          Inr (RelayServerMessage RelayReplyMessage MSG_RELAY_REPL hc la pa my_options))"
| "wrap_response (RelayServerMessage RelayReplyMessage mt hc la pa opts) response = Inl AttributeError"
| "wrap_response (ClientServerMessage cls tid opts) response = Inl AttributeError"
| "wrap_response (UnknownMessage mt md) response = Inl AttributeError"
| "wrap_options [] response my_options = Inr my_options"
| "wrap_options (opt # opts) response my_options =
     (if echo_to_relay opt then wrap_options opts response (my_options @ [opt])
      else
        (case opt of
           RelayMessageOption e relayed \<Rightarrow>
             (if class_of relayed = RelayServer_class RelayForwardMessage then
                (case wrap_response relayed response of
                   Inl err \<Rightarrow> Inl err
                 | Inr wrapped \<Rightarrow>
                     wrap_options opts response (my_options @ [RelayMessageOption False wrapped]))
              else if (case relayed of ClientServerMessage c t os \<Rightarrow> True | _ \<Rightarrow> False) then
                wrap_options opts response (my_options @ [RelayMessageOption False response])
              else
                Inl (ValueError
                  ''RelayForwardMessages can only contain other RelayForwardMessages and ClientServerMessages''))
         | OtherOption t e i d \<Rightarrow> wrap_options opts response my_options))"

section \<open>Notions of the specification\<close>

text \<open>
  A relay chain: a \<^verbatim>\<open>RelayForwardMessage\<close> in which every relay-message option that is not
  marked \<^verbatim>\<open>echo_to_relay\<close> wraps a client-server message or, again, a relay chain.
\<close>

fun relay_chain :: "message \<Rightarrow> bool"
and relay_chain_options :: "option_elem list \<Rightarrow> bool" where
  "relay_chain (RelayServerMessage cls mt hc la pa opts) =
     (cls = RelayForwardMessage \<and> relay_chain_options opts)"
| "relay_chain (ClientServerMessage cls tid opts) = False"
| "relay_chain (UnknownMessage mt md) = False"
| "relay_chain_options [] = True"
| "relay_chain_options (RelayMessageOption e m # opts) =
     ((e \<or> (case m of ClientServerMessage c t os \<Rightarrow> True | _ \<Rightarrow> relay_chain m))
      \<and> relay_chain_options opts)"
| "relay_chain_options (OtherOption t e i d # opts) = relay_chain_options opts"

text \<open>
  The nesting depth of a message: the number of relay messages on the longest path that
  goes down through relay-message options.
\<close>

fun nesting_depth :: "message \<Rightarrow> nat"
and nesting_depth_options :: "option_elem list \<Rightarrow> nat" where
  "nesting_depth (RelayServerMessage cls mt hc la pa opts) = Suc (nesting_depth_options opts)"
| "nesting_depth (ClientServerMessage cls tid opts) = 0"
| "nesting_depth (UnknownMessage mt md) = 0"
| "nesting_depth_options [] = 0"
| "nesting_depth_options (RelayMessageOption e m # opts) =
     max (nesting_depth m) (nesting_depth_options opts)"
| "nesting_depth_options (OtherOption t e i d # opts) = nesting_depth_options opts"

text \<open>
  What the specification says becomes of one option of the relay-forward message in the
  relay-reply message: an echoed option is copied, a relay-message option is replaced, any
  other option is dropped.
\<close>

definition reply_options_for :: "message \<Rightarrow> option_elem \<Rightarrow> option_elem list" where
  "reply_options_for response opt =
     (if echo_to_relay opt then [opt]
      else case opt of
        RelayMessageOption e inner \<Rightarrow>
          (case inner of
             RelayServerMessage cls mt hc la pa os \<Rightarrow>
               (case wrap_response inner response of
                  Inr wrapped \<Rightarrow> [RelayMessageOption False wrapped]
                | Inl err \<Rightarrow> [])
           | ClientServerMessage cls tid os \<Rightarrow> [RelayMessageOption False response]
           | UnknownMessage mt md \<Rightarrow> [])
      | OtherOption t e i d \<Rightarrow> [])"

text \<open>
  The contract that the specification asks of an option: it saves to a non-empty byte
  string, and parsing a buffer at the place where these bytes start gives the option back
  together with their number, whatever comes before and after them.
\<close>

definition option_contract :: "option_env \<Rightarrow> option_elem \<Rightarrow> bool" where
  "option_contract env opt =
     (\<exists>saved. option_save env opt = Inr saved \<and> saved \<noteq> []
        \<and> (\<forall>pre suf. option_parse env (pre @ saved @ suf) (int (length pre))
               = Inr (int (length saved), opt)))"

section \<open>An option codec for the examples\<close>

text \<open>
  Modelled from the spec: the options are self-describing and length-prefixed, and parsing
  what an option saved gives the option back with its own length. The examples use the
  smallest such codec: one byte of option type, one byte of length, then the data. Every
  option is an instance of \<^verbatim>\<open>Option\<close>, which every message class may contain any number of
  times.
\<close>

definition example_option_parse :: "bytes \<Rightarrow> int \<Rightarrow> error + (int \<times> option_elem)" where
  "example_option_parse buffer offset =
     (case py_index buffer offset of
        Inl e \<Rightarrow> Inl e
      | Inr t \<Rightarrow>
          (case py_index buffer (offset + 1) of
             Inl e \<Rightarrow> Inl e
           | Inr l \<Rightarrow>
               (let option_data = py_slice buffer (offset + 2) (offset + 2 + uint l) in
                if int (length option_data) < uint l then
                  Inl (ValueError ''option longer than buffer'')
                else Inr (2 + uint l, OtherOption (uint t) False PyNone option_data))))"

fun example_option_save :: "option_elem \<Rightarrow> error + bytes" where
  "example_option_save (OtherOption t e i d) =
     (if 0 \<le> t \<and> t < 256 \<and> length d < 256
      then Inr ([word_of_int t, word_of_int (int (length d))] @ d)
      else Inl (ValueError ''option does not fit''))"
| "example_option_save (RelayMessageOption e m) = Inl (ValueError ''not in this codec'')"

definition example_env :: option_env where
  "example_env =
     \<lparr> isinstance_option = (\<lambda>opt k. k = ''Option''),
       option_class_name = (\<lambda>opt. ''Option''),
       option_validate = (\<lambda>opt. Inr ()),
       option_save = example_option_save,
       option_parse = example_option_parse,
       may_contain = (\<lambda>cls. [(''Option'', 0, infinite)]) \<rparr>"

section \<open>Auxiliary facts\<close>

lemmas MSG_defs =
  MSG_SOLICIT_def MSG_ADVERTISE_def MSG_REQUEST_def MSG_CONFIRM_def MSG_RENEW_def
  MSG_REBIND_def MSG_REPLY_def MSG_RELEASE_def MSG_DECLINE_def MSG_RECONFIGURE_def
  MSG_INFORMATION_REQUEST_def MSG_RELAY_FORW_def MSG_RELAY_REPL_def

lemma registry_unknown_tag: "\<not> (1 \<le> t \<and> t \<le> 13) \<Longrightarrow> map_of registry t = None"
  by (auto simp add: registry_def MSG_defs)

text \<open>
  The option loop does not look at the options it already holds: started with another
  list, it raises the same error or returns the same count and appends the same options.
\<close>

lemma parse_options_acc:
  assumes run: "parse_options env buffer offset max_length my_offset opts = Some r"
  shows "case r of
           Inl e \<Rightarrow> (\<forall>opts2. parse_options env buffer offset max_length my_offset opts2 = Some (Inl e))
         | Inr (n, res) \<Rightarrow> (\<exists>parsed. res = opts @ parsed \<and>
              (\<forall>opts2. parse_options env buffer offset max_length my_offset opts2
                  = Some (Inr (n, opts2 @ parsed))))"
proof (rule parse_options.raw_induct
    [where P = "\<lambda>env buffer offset max_length my_offset opts r. case r of
           Inl e \<Rightarrow> (\<forall>opts2. parse_options env buffer offset max_length my_offset opts2 = Some (Inl e))
         | Inr (n, res) \<Rightarrow> (\<exists>parsed. res = opts @ parsed \<and>
              (\<forall>opts2. parse_options env buffer offset max_length my_offset opts2
                  = Some (Inr (n, opts2 @ parsed))))",
     OF _ run])
  fix parse_options' env buffer offset max_length my_offset opts r
  assume IH: "\<And>env buffer offset max_length my_offset opts r.
        parse_options' env buffer offset max_length my_offset opts = Some r \<Longrightarrow>
        (case r of
           Inl e \<Rightarrow> (\<forall>opts2. parse_options env buffer offset max_length my_offset opts2 = Some (Inl e))
         | Inr (n, res) \<Rightarrow> (\<exists>parsed. res = opts @ parsed \<and>
              (\<forall>opts2. parse_options env buffer offset max_length my_offset opts2
                  = Some (Inr (n, opts2 @ parsed)))))"
  assume body: "(if my_offset < max_length
      then case option_parse env buffer (offset + my_offset) of
           Inl e \<Rightarrow> Some (Inl e)
           | Inr used_and_option \<Rightarrow>
               parse_options' env buffer offset max_length
                (my_offset + fst used_and_option)
                (opts @ [snd used_and_option])
      else Some (Inr (my_offset, opts))) = Some r"
  note step = parse_options.simps[of env buffer offset max_length my_offset]
  show "case r of
           Inl e \<Rightarrow> (\<forall>opts2. parse_options env buffer offset max_length my_offset opts2 = Some (Inl e))
         | Inr (n, res) \<Rightarrow> (\<exists>parsed. res = opts @ parsed \<and>
              (\<forall>opts2. parse_options env buffer offset max_length my_offset opts2
                  = Some (Inr (n, opts2 @ parsed))))"
  proof (cases "max_length > my_offset")
    case False
    with body have "r = Inr (my_offset, opts)" by simp
    with False show ?thesis by (simp add: step)
  next
    case True
    show ?thesis
    proof (cases "option_parse env buffer (offset + my_offset)")
      case (Inl e)
      with True body have "r = Inl e" by simp
      with True Inl show ?thesis by (simp add: step)
    next
      case (Inr uo)
      note parsed_one = Inr
      with True body have
        "parse_options' env buffer offset max_length (my_offset + fst uo) (opts @ [snd uo]) = Some r"
        by simp
      from IH[OF this] have IH': "case r of
           Inl e \<Rightarrow> (\<forall>opts2. parse_options env buffer offset max_length (my_offset + fst uo) opts2
                        = Some (Inl e))
         | Inr (n, res) \<Rightarrow> (\<exists>parsed. res = (opts @ [snd uo]) @ parsed \<and>
              (\<forall>opts2. parse_options env buffer offset max_length (my_offset + fst uo) opts2
                  = Some (Inr (n, opts2 @ parsed))))" .
      show ?thesis
      proof (cases r)
        case (Inl e)
        with IH' have "\<forall>opts2. parse_options env buffer offset max_length (my_offset + fst uo) opts2
            = Some (Inl e)"
          by simp
        with True parsed_one Inl show ?thesis by (simp add: step)
      next
        case (Inr p)
        obtain n res where p: "p = (n, res)" by (cases p)
        with IH' Inr obtain parsed where res: "res = (opts @ [snd uo]) @ parsed"
          and all: "\<forall>opts2. parse_options env buffer offset max_length (my_offset + fst uo) opts2
              = Some (Inr (n, opts2 @ parsed))"
          by auto
        have "res = opts @ (snd uo # parsed)" using res by simp
        moreover have "\<forall>opts2. parse_options env buffer offset max_length my_offset opts2
            = Some (Inr (n, opts2 @ (snd uo # parsed)))"
          using True parsed_one all by (simp add: step)
        ultimately show ?thesis using Inr p by auto
      qed
    qed
  qed
qed

lemma parse_options_from_empty:
  assumes "parse_options env buffer offset max_length my_offset opts = Some (Inr (n, res))"
  shows "\<exists>parsed. res = opts @ parsed
     \<and> parse_options env buffer offset max_length my_offset [] = Some (Inr (n, parsed))"
proof -
  from parse_options_acc[OF assms] obtain parsed where "res = opts @ parsed"
    and "\<forall>opts2. parse_options env buffer offset max_length my_offset opts2
            = Some (Inr (n, opts2 @ parsed))"
    by auto
  then have "res = opts @ parsed
     \<and> parse_options env buffer offset max_length my_offset [] = Some (Inr (n, [] @ parsed))"
    by blast
  then show ?thesis by auto
qed

text \<open>The depth of a concatenation of option lists.\<close>

lemma nesting_depth_options_append:
  "nesting_depth_options (xs @ ys) = max (nesting_depth_options xs) (nesting_depth_options ys)"
proof (induction xs)
  case Nil
  show ?case by simp
next
  case (Cons x xs)
  then show ?case by (cases x) simp_all
qed

lemma wrap_response_chain:
  "relay_chain self \<Longrightarrow> nesting_depth response = 0 \<Longrightarrow>
     wrap_response self response =
        Inr (RelayServerMessage RelayReplyMessage MSG_RELAY_REPL (hop_count self)
               (link_address self) (peer_address self)
               (concat (map (reply_options_for response) (options self))))
     \<and> nesting_depth_options (concat (map (reply_options_for response) (options self)))
         = nesting_depth_options (options self)"
  and wrap_options_chain:
  "relay_chain_options opts \<Longrightarrow> nesting_depth response' = 0 \<Longrightarrow>
      wrap_options opts response' acc = Inr (acc @ concat (map (reply_options_for response') opts))
      \<and> nesting_depth_options (concat (map (reply_options_for response') opts))
          = nesting_depth_options opts"
proof (induction self response and opts response' acc rule: wrap_response_wrap_options.induct)
  case (1 mt hc la pa opts response)
  then show ?case by simp
next
  case (2 mt hc la pa opts response)
  then show ?case by simp
next
  case (3 cls tid opts response)
  then show ?case by simp
next
  case (4 mt md response)
  then show ?case by simp
next
  case (5 response my_options)
  then show ?case by simp
next
  case (6 opt opts response my_options)
  note chain = \<open>relay_chain_options (opt # opts)\<close>
  note resp = \<open>nesting_depth response = 0\<close>
  show ?case
  proof (cases opt)
    case (OtherOption t e i d)
    with chain have rest: "relay_chain_options opts" by simp
    show ?thesis
    proof (cases e)
      case True
      with OtherOption 6(1)[OF _ rest resp] show ?thesis
        by (simp add: reply_options_for_def)
    next
      case False
      with OtherOption 6(5)[OF _ _ rest resp] show ?thesis
        by (simp add: reply_options_for_def)
    qed
  next
    case (RelayMessageOption e relayed)
    with chain have rest: "relay_chain_options opts" by simp
    show ?thesis
    proof (cases e)
      case True
      with RelayMessageOption 6(1)[OF _ rest resp] show ?thesis
        by (simp add: reply_options_for_def)
    next
      case False
      note ne = False
      show ?thesis
      proof (cases relayed)
        case (UnknownMessage mt md)
        with chain RelayMessageOption ne show ?thesis by simp
      next
        case (ClientServerMessage c t os)
        with RelayMessageOption ne 6(4)[OF _ _ _ _ rest resp] resp show ?thesis
          by (simp add: reply_options_for_def)
      next
        case (RelayServerMessage c mt hc la pa os)
        with chain RelayMessageOption ne have rc: "relay_chain relayed" by simp
        with RelayServerMessage have c: "c = RelayForwardMessage" by simp
        have cls: "class_of relayed = RelayServer_class RelayForwardMessage"
          using RelayServerMessage c by simp
        from 6(2)[OF _ RelayMessageOption cls rc resp] RelayMessageOption ne
        have inner: "wrap_response relayed response =
            Inr (RelayServerMessage RelayReplyMessage MSG_RELAY_REPL hc la pa
               (concat (map (reply_options_for response) os)))"
          and depth: "nesting_depth_options (concat (map (reply_options_for response) os))
             = nesting_depth_options os"
          using RelayServerMessage by simp_all
        from 6(3)[OF _ RelayMessageOption cls inner rest resp] RelayMessageOption ne
        have "wrap_options opts response
           (my_options @ [RelayMessageOption False (RelayServerMessage RelayReplyMessage MSG_RELAY_REPL hc la pa
               (concat (map (reply_options_for response) os)))]) =
          Inr ((my_options @ [RelayMessageOption False (RelayServerMessage RelayReplyMessage MSG_RELAY_REPL hc la pa
               (concat (map (reply_options_for response) os)))]) @
             concat (map (reply_options_for response) opts))"
          and "nesting_depth_options (concat (map (reply_options_for response) opts)) =
            nesting_depth_options opts"
          by simp_all
        moreover have "reply_options_for response opt =
            [RelayMessageOption False (RelayServerMessage RelayReplyMessage MSG_RELAY_REPL hc la pa
               (concat (map (reply_options_for response) os)))]"
          using RelayMessageOption ne RelayServerMessage inner
          by (simp add: reply_options_for_def del: wrap_response.simps)
        moreover have "wrap_options (opt # opts) response my_options =
           wrap_options opts response
             (my_options @ [RelayMessageOption False (RelayServerMessage RelayReplyMessage MSG_RELAY_REPL hc la pa
               (concat (map (reply_options_for response) os)))])"
          using RelayMessageOption ne cls inner by (simp del: wrap_response.simps)
        moreover have "nesting_depth_options (opt # opts) =
            max (Suc (nesting_depth_options os)) (nesting_depth_options opts)"
          using RelayMessageOption RelayServerMessage by simp
        ultimately show ?thesis using depth by simp
      qed
    qed
  qed
qed

lemma wrap_options_invalid:
  assumes "RelayMessageOption False relayed \<in> set opts"
    and "class_of relayed \<noteq> RelayServer_class RelayForwardMessage"
    and "\<forall>c. class_of relayed \<noteq> ClientServer_class c"
  shows "\<exists>e. wrap_options opts response my_options = Inl e"
  using assms(1)
proof (induction opts arbitrary: my_options)
  case Nil
  then show ?case by simp
next
  case (Cons opt opts)
  show ?case
  proof (cases "opt = RelayMessageOption False relayed")
    case True
    with assms(2,3) show ?thesis by (cases relayed) auto
  next
    case False
    with Cons.prems have "RelayMessageOption False relayed \<in> set opts" by simp
    from Cons.IH[OF this] show ?thesis
      by (auto split: option_elem.splits sum.splits)
  qed
qed

section \<open>Round trip and consumption of client-server messages\<close>

text \<open>
  For the eleven client-server classes, and options that keep their contract, parsing what
  \<^verbatim>\<open>save\<close> wrote gives the message back and uses exactly the length of the saved bytes,
  also when the buffer goes on after them.
\<close>

lemma py_index_at: "py_index (pre @ x # rest) (int (length pre)) = Inr x"
  by (simp add: py_index_def)

lemma py_slice_at:
  "py_slice (pre @ mid @ suf) (int (length pre)) (int (length pre) + int (length mid)) = mid"
proof -
  have "slice_bound (length (pre @ mid @ suf)) (int (length pre)) = length pre"
    by (simp add: slice_bound_def)
  moreover have "slice_bound (length (pre @ mid @ suf)) (int (length pre) + int (length mid))
      = length pre + length mid"
    by (simp add: slice_bound_def nat_add_distrib)
  ultimately show ?thesis by (simp add: py_slice_def)
qed

lemma options_roundtrip:
  assumes "\<forall>opt \<in> set opts. option_contract env opt"
  shows "\<exists>body. (\<forall>buffer. save_options env opts buffer = Inr (buffer @ body))
     \<and> (\<forall>pre hdr suf acc.
           parse_options env (pre @ hdr @ body @ suf) (int (length pre))
              (int (length hdr) + int (length body)) (int (length hdr)) acc
            = Some (Inr (int (length hdr) + int (length body), acc @ opts)))"
  using assms
proof (induction opts)
  case Nil
  have "\<forall>pre hdr suf acc.
           parse_options env (pre @ hdr @ [] @ suf) (int (length pre))
              (int (length hdr) + int (length ([] :: bytes))) (int (length hdr)) acc
            = Some (Inr (int (length hdr) + int (length ([] :: bytes)), acc @ []))"
    by (simp add: parse_options.simps)
  then show ?case by (intro exI[of _ "[]"]) simp
next
  case (Cons opt opts)
  from Cons.prems have "option_contract env opt" by simp
  then obtain saved where sv: "option_save env opt = Inr saved" and ne: "saved \<noteq> []"
    and ps: "\<And>pre suf. option_parse env (pre @ saved @ suf) (int (length pre))
               = Inr (int (length saved), opt)"
    unfolding option_contract_def by blast
  from Cons.prems have "\<forall>opt \<in> set opts. option_contract env opt" by simp
  from Cons.IH[OF this] obtain body
    where sb: "\<And>buffer. save_options env opts buffer = Inr (buffer @ body)"
      and pb: "\<And>pre hdr suf acc.
           parse_options env (pre @ hdr @ body @ suf) (int (length pre))
              (int (length hdr) + int (length body)) (int (length hdr)) acc
            = Some (Inr (int (length hdr) + int (length body), acc @ opts))"
    by blast
  have save: "\<forall>buffer. save_options env (opt # opts) buffer = Inr (buffer @ (saved @ body))"
    using sv sb by simp
  have parse: "parse_options env (pre @ hdr @ (saved @ body) @ suf) (int (length pre))
              (int (length hdr) + int (length (saved @ body))) (int (length hdr)) acc
            = Some (Inr (int (length hdr) + int (length (saved @ body)), acc @ (opt # opts)))"
    for pre hdr suf acc
  proof -
    have gt: "int (length hdr) + int (length (saved @ body)) > int (length hdr)"
      using ne by (cases saved) simp_all
    have one: "option_parse env (pre @ hdr @ (saved @ body) @ suf) (int (length pre) + int (length hdr))
        = Inr (int (length saved), opt)"
      using ps[of "pre @ hdr" "body @ suf"] by simp
    have rest: "parse_options env (pre @ hdr @ (saved @ body) @ suf) (int (length pre))
         (int (length hdr) + int (length (saved @ body))) (int (length hdr) + int (length saved))
         (acc @ [opt])
       = Some (Inr (int (length hdr) + int (length (saved @ body)), acc @ (opt # opts)))"
      using pb[of pre "hdr @ saved" suf "acc @ [opt]"] by (simp add: add.assoc)
    show ?thesis
      using gt one rest
      by (subst parse_options.simps) simp
  qed
  from save parse show ?case by blast
qed


lemma client_server_tag_byte: "uint (word_of_int (client_server_message_type cls) :: byte)
    = client_server_message_type cls"
  by (cases cls) (simp_all add: MSG_defs)

lemma client_server_load_from_saved:
  assumes saved: "save env (ClientServerMessage cls tid opts) = Inr saved"
    and contract: "\<forall>opt \<in> set opts. option_contract env opt"
  shows "load_from env (ClientServerMessage cls tid0 []) (pre @ saved @ suf) (int (length pre))
           (Some (int (length saved)))
         = Some (Inr (int (length saved), ClientServerMessage cls tid opts))"
proof -
  let ?tag = "word_of_int (client_server_message_type cls) :: byte"
  from saved have valid: "validate env (ClientServerMessage cls tid opts) = Inr ()"
    by (cases "validate env (ClientServerMessage cls tid opts)") (simp_all del: validate.simps)
  then have len3: "length tid = 3" by (simp split: if_splits)
  from options_roundtrip[OF contract] obtain body
    where sb: "\<And>buffer. save_options env opts buffer = Inr (buffer @ body)"
      and pb: "\<And>pre hdr suf acc.
           parse_options env (pre @ hdr @ body @ suf) (int (length pre))
              (int (length hdr) + int (length body)) (int (length hdr)) acc
            = Some (Inr (int (length hdr) + int (length body), acc @ opts))"
    by blast
  have tag_ok: "0 \<le> client_server_message_type cls \<and> client_server_message_type cls < 256"
    by (cases cls) (simp_all add: MSG_defs)
  from saved valid sb tag_ok have shape: "saved = ?tag # tid @ body"
    by (simp add: append_byte_def del: validate.simps)
  have total: "int (length saved) = 4 + int (length body)" using shape len3 by simp
  have first: "py_index (pre @ saved @ suf) (int (length pre) + 0) = Inr ?tag"
    using py_index_at[of pre ?tag "tid @ body @ suf"] shape by simp
  have tid: "py_slice (pre @ saved @ suf) (int (length pre) + 1) (int (length pre) + 1 + 3) = tid"
    using py_slice_at[of "pre @ [?tag]" tid "body @ suf"] shape len3 by (simp add: ac_simps)
  have loop: "parse_options env (pre @ saved @ suf) (int (length pre)) (int (length saved)) 4 []
      = Some (Inr (int (length saved), opts))"
    using pb[of pre "?tag # tid" suf "[]"] shape len3 by simp
  have nonzero: "length_or (Some (int (length saved))) (int (length (pre @ saved @ suf)) - int (length pre))
      = int (length saved)"
    using total by (simp add: length_or_def)
  show ?thesis
    using first tid loop nonzero valid client_server_tag_byte[of cls]
    by (simp del: validate.simps)
qed

lemma client_server_roundtrip:
  assumes saved: "save env (ClientServerMessage cls tid opts) = Inr saved"
    and contract: "\<forall>opt \<in> set opts. option_contract env opt"
  shows "parse env (saved @ suf) 0 (Some (int (length saved)))
         = Some (Inr (int (length saved), ClientServerMessage cls tid opts))"
proof -
  let ?tag = "word_of_int (client_server_message_type cls) :: byte"
  have tag_ok: "0 \<le> client_server_message_type cls \<and> client_server_message_type cls < 256"
    by (cases cls) (simp_all add: MSG_defs)
  from saved have valid: "validate env (ClientServerMessage cls tid opts) = Inr ()"
    by (cases "validate env (ClientServerMessage cls tid opts)") (simp_all del: validate.simps)
  from options_roundtrip[OF contract] obtain body
    where "\<And>buffer. save_options env opts buffer = Inr (buffer @ body)"
    by blast
  with saved valid tag_ok have shape: "saved = ?tag # tid @ body"
    by (simp add: append_byte_def del: validate.simps)
  from shape have "py_index (saved @ suf) 0 = Inr ?tag" by (simp add: py_index_def)
  moreover have "map_of registry (client_server_message_type cls) = Some (ClientServer_class cls)"
    by (cases cls) (simp_all add: registry_def MSG_defs)
  ultimately have "determine_class (saved @ suf) 0 = Inr (ClientServer_class cls)"
    by (simp add: determine_class_def client_server_tag_byte)
  then show ?thesis
    using client_server_load_from_saved[OF saved contract, of "[0, 0, 0]" "[]" suf]
    by (simp add: parse_def)
qed


lemma uint_byte_of_int: "0 \<le> i \<Longrightarrow> i < 256 \<Longrightarrow> uint (word_of_int i :: byte) = i"
  by (simp add: uint_word_of_int)

lemma example_option_contract:
  assumes "0 \<le> t" and "t < 256" and "length d < 256"
  shows "option_contract example_env (OtherOption t False PyNone d)"
proof -
  let ?t = "word_of_int t :: byte" and ?l = "word_of_int (int (length d)) :: byte"
  let ?saved = "[?t, ?l] @ d"
  have ut: "uint ?t = t" using assms by (simp add: uint_byte_of_int)
  have ul: "uint ?l = int (length d)"
    using assms uint_byte_of_int[of "int (length d)"] by simp
  have parse: "example_option_parse (pre @ ?saved @ suf) (int (length pre))
      = Inr (int (length ?saved), OtherOption t False PyNone d)" for pre suf
  proof -
    have i0: "py_index (pre @ ?saved @ suf) (int (length pre)) = Inr ?t"
      using py_index_at[of pre ?t "?l # d @ suf"] by simp
    have i1: "py_index (pre @ ?saved @ suf) (int (length pre) + 1) = Inr ?l"
      using py_index_at[of "pre @ [?t]" ?l "d @ suf"] by (simp add: ac_simps)
    have sl: "py_slice (pre @ ?saved @ suf) (int (length pre) + 2)
        (int (length pre) + 2 + int (length d)) = d"
      using py_slice_at[of "pre @ [?t, ?l]" d suf] by (simp add: ac_simps)
    show ?thesis
      unfolding example_option_parse_def
      using i0 i1 sl ut ul by (simp add: ac_simps)
  qed
  have "option_save example_env (OtherOption t False PyNone d) = Inr ?saved"
    using assms by (simp add: example_env_def)
  moreover have "?saved \<noteq> []" by simp
  moreover have "\<forall>pre suf. option_parse example_env (pre @ ?saved @ suf) (int (length pre))
      = Inr (int (length ?saved), OtherOption t False PyNone d)"
    using parse by (simp add: example_env_def)
  ultimately show ?thesis unfolding option_contract_def by blast
qed

lemma client_server_roundtrip_example:
  "save example_env (ClientServerMessage RequestMessage [1, 2, 3] [OtherOption 7 False PyNone [8, 9]])
     = Inr [3, 1, 2, 3, 7, 2, 8, 9]
   \<and> parse example_env ([3, 1, 2, 3, 7, 2, 8, 9] @ [5, 5]) 0 (Some 8)
     = Some (Inr (8, ClientServerMessage RequestMessage [1, 2, 3] [OtherOption 7 False PyNone [8, 9]]))"
proof -
  have s: "save example_env (ClientServerMessage RequestMessage [1, 2, 3] [OtherOption 7 False PyNone [8, 9]])
     = Inr [3, 1, 2, 3, 7, 2, 8, 9]"
    by code_simp
  have c: "\<forall>opt \<in> set [OtherOption 7 False PyNone [8, 9]]. option_contract example_env opt"
    using example_option_contract[of 7 "[8, 9]"] by simp
  from client_server_roundtrip[OF s c, of "[5, 5]"] s show ?thesis by simp
qed

section \<open>The claims\<close>

text \<open>
  C1 (round trip). The claim fails on \<^verbatim>\<open>UnknownMessage\<close>: the instance with message type
  \<open>200\<close> and data \<open>[1, 2]\<close> is valid and saves as the three bytes \<open>[200, 1, 2]\<close>, but
  parsing these bytes with declared length \<open>3\<close> raises \<^verbatim>\<open>TypeError\<close> instead of returning
  \<open>(3, x)\<close>, because \<^verbatim>\<open>parse\<close> calls the constructor of \<^verbatim>\<open>UnknownMessage\<close> without the
  argument it requires.
\<close>

theorem roundtrip_unknown_message_raises:
  "validate example_env (UnknownMessage 200 [1, 2]) = Inr ()
   \<and> save example_env (UnknownMessage 200 [1, 2]) = Inr [200, 1, 2]
   \<and> parse example_env [200, 1, 2] 0 (Some 3) = Some (Inl TypeError)"
  by code_simp

text \<open>
  C2 (wrapping a response). For a relay chain \<open>self\<close> and a client-server \<open>response\<close>,
  \<^verbatim>\<open>self.wrap_response(response)\<close> returns a \<^verbatim>\<open>RelayReplyMessage\<close> with the hop count, link
  address and peer address of \<open>self\<close>; its options are, in order, what \<open>reply_options_for\<close>
  makes of each option of \<open>self\<close> (echoed options copied, relay-message options replaced by
  one that wraps the recursive result or the response, the others dropped); and its
  nesting depth is that of \<open>self\<close>.
\<close>

theorem wrap_response_relay_chain:
  assumes "relay_chain self" and "class_of response = ClientServer_class c"
  shows "\<exists>my_response. wrap_response self response = Inr my_response
     \<and> class_of my_response = RelayServer_class RelayReplyMessage
     \<and> hop_count my_response = hop_count self
     \<and> link_address my_response = link_address self
     \<and> peer_address my_response = peer_address self
     \<and> options my_response = concat (map (reply_options_for response) (options self))
     \<and> nesting_depth my_response = nesting_depth self"
proof -
  from assms(2) have flat: "nesting_depth response = 0" by (cases response) simp_all
  from assms(1) obtain mt hc la pa opts
    where self: "self = RelayServerMessage RelayForwardMessage mt hc la pa opts"
    by (cases self) simp_all
  from wrap_response_chain[OF assms(1) flat] self show ?thesis by simp
qed

theorem wrap_response_relay_chain_witness:
  "relay_chain
     (RelayServerMessage RelayForwardMessage 12 1 None None
        [OtherOption 18 True PyNone [1], OtherOption 9 False PyNone [],
         RelayMessageOption False
           (RelayServerMessage RelayForwardMessage 12 0 None None
              [RelayMessageOption False (ClientServerMessage SolicitMessage [1, 2, 3] [])])])
   \<and> class_of (ClientServerMessage ReplyMessage [1, 2, 3] []) = ClientServer_class ReplyMessage
   \<and> wrap_response
     (RelayServerMessage RelayForwardMessage 12 1 None None
        [OtherOption 18 True PyNone [1], OtherOption 9 False PyNone [],
         RelayMessageOption False
           (RelayServerMessage RelayForwardMessage 12 0 None None
              [RelayMessageOption False (ClientServerMessage SolicitMessage [1, 2, 3] [])])])
     (ClientServerMessage ReplyMessage [1, 2, 3] [])
     = Inr (RelayServerMessage RelayReplyMessage 13 1 None None
        [OtherOption 18 True PyNone [1],
         RelayMessageOption False
           (RelayServerMessage RelayReplyMessage 13 0 None None
              [RelayMessageOption False (ClientServerMessage ReplyMessage [1, 2, 3] [])])])
   \<and> nesting_depth (RelayServerMessage RelayReplyMessage 13 1 None None
        [OtherOption 18 True PyNone [1],
         RelayMessageOption False
           (RelayServerMessage RelayReplyMessage 13 0 None None
              [RelayMessageOption False (ClientServerMessage ReplyMessage [1, 2, 3] [])])]) = 2"
  using wrap_response_relay_chain
    [of "RelayServerMessage RelayForwardMessage 12 1 None None
        [OtherOption 18 True PyNone [1], OtherOption 9 False PyNone [],
         RelayMessageOption False
           (RelayServerMessage RelayForwardMessage 12 0 None None
              [RelayMessageOption False (ClientServerMessage SolicitMessage [1, 2, 3] [])])]"
        "ClientServerMessage ReplyMessage [1, 2, 3] []" ReplyMessage]
  by (simp add: MSG_RELAY_REPL_def reply_options_for_def numeral_2_eq_2)

text \<open>
  C3 (unknown tag). The claim fails: whenever the byte at the offset is not one of the tags
  \<open>1..13\<close>, \<^verbatim>\<open>Message.parse\<close> raises \<^verbatim>\<open>TypeError\<close>, whatever the length argument, since the
  class it has determined is \<^verbatim>\<open>UnknownMessage\<close>, whose constructor cannot be called
  without a message type. \<^verbatim>\<open>UnknownMessage.load_from\<close> itself, on an instance built by
  hand, raises \<^verbatim>\<open>TypeError\<close> when no length is given (\<^verbatim>\<open>None - 1\<close>).
\<close>

theorem parse_unknown_tag_raises:
  assumes "py_index buffer offset = Inr b" and "\<not> (1 \<le> uint b \<and> uint b \<le> 13)"
  shows "parse env buffer offset len = Some (Inl TypeError)
     \<and> load_from env (UnknownMessage mt md) buffer offset None = Some (Inl TypeError)"
  using assms by (simp add: parse_def determine_class_def registry_unknown_tag)

theorem parse_unknown_tag_raises_witness:
  "py_index [200, 1, 2 :: byte] 0 = Inr 200 \<and> \<not> (1 \<le> uint (200 :: byte) \<and> uint (200 :: byte) \<le> 13)
   \<and> parse example_env [200, 1, 2] 0 (Some 3) = Some (Inl TypeError)
   \<and> load_from example_env (UnknownMessage 200 []) [200, 1, 2] 0 None = Some (Inl TypeError)"
proof -
  have h1: "py_index [200, 1, 2 :: byte] 0 = Inr 200" by (simp add: py_index_def)
  have h2: "\<not> (1 \<le> uint (200 :: byte) \<and> uint (200 :: byte) \<le> 13)" by simp
  show ?thesis
    using h1 h2 parse_unknown_tag_raises[OF h1 h2, of example_env "Some 3" 200 "[]"] by simp
qed

text \<open>
  C4 (declared length). The claim fails where an option overruns the declared length: the
  loop has no check after \<^verbatim>\<open>Option.parse\<close>. With a declared length of \<open>6\<close> and an option
  that occupies the bytes \<open>4..7\<close>, \<^verbatim>\<open>ClientServerMessage.load_from\<close> returns \<open>8\<close>; with a
  declared length of \<open>36\<close> and an option in the bytes \<open>34..37\<close>,
  \<^verbatim>\<open>RelayServerMessage.load_from\<close> returns \<open>38\<close>. Neither raises.
\<close>

theorem load_from_overruns_declared_length:
  "load_from example_env (ClientServerMessage SolicitMessage [0, 0, 0] [])
     [1, 1, 2, 3, 7, 2, 8, 9] 0 (Some 6)
   = Some (Inr (8, ClientServerMessage SolicitMessage [1, 2, 3] [OtherOption 7 False PyNone [8, 9]]))
   \<and> load_from example_env (RelayServerMessage RelayForwardMessage MSG_RELAY_FORW 0 None None [])
     ([12, 0] @ replicate 16 0 @ replicate 16 0 @ [7, 2, 8, 9]) 0 (Some 36)
   = Some (Inr (38, RelayServerMessage RelayForwardMessage MSG_RELAY_FORW 0
        (Some (Packed (replicate 16 0))) (Some (Packed (replicate 16 0)))
        [OtherOption 7 False PyNone [8, 9]]))"
  by code_simp

text \<open>
  C5 (classification). The claim fails: with \<^verbatim>\<open>A\<close> registered first with a maximum of \<open>0\<close>
  and \<^verbatim>\<open>B\<close> registered with a maximum of \<open>1\<close>, an element that is an instance of \<^verbatim>\<open>B\<close> and
  not of \<^verbatim>\<open>A\<close> is classified as \<^verbatim>\<open>None\<close>: the test of the maximum comes before the
  \<^verbatim>\<open>isinstance\<close> test, so the unrelated class \<^verbatim>\<open>A\<close> stops the search.
\<close>

theorem get_element_class_unrelated_class_stops:
  "\<not> (\<lambda>e k. k = e) ''B'' ''A'' \<and> (\<lambda>e k. k = e) ''B'' ''B''
   \<and> get_element_class (\<lambda>e k. k = e) [(''A'', 0, 0), (''B'', 0, 1)] ''B'' = None"
  by simp

text \<open>
  C6 (containment errors). The claim fails in what the error names: a container that must
  hold between \<open>2\<close> and \<open>5\<close> elements of kind \<^verbatim>\<open>K\<close> and holds one raises
  \<^verbatim>\<open>"Container must contain at least 5 Ks"\<close>; the bound that is violated is the minimum
  \<open>2\<close>, the error names the maximum.
\<close>

theorem validate_contains_names_max_for_min:
  "validate_contains (\<lambda>e k. k = e) (\<lambda>e. e) ''Container'' [(''K'', 2, 5)] [''K'']
   = Inl (MustContainAtLeast ''Container'' 5 ''K'')"
  by (simp add: validate_contains_def)

text \<open>
  C7 (unique IAIDs). The claim fails for the identifier \<open>0\<close>: a message with two options
  of the same classified kind that both carry the \<^verbatim>\<open>iaid\<close> \<open>0\<close> passes validation, because
  the uniqueness loop skips every \<^verbatim>\<open>iaid\<close> that is false; with the identifier \<open>5\<close> the same
  message is rejected.
\<close>

theorem validate_accepts_duplicate_zero_iaid:
  "validate example_env (ClientServerMessage SolicitMessage [1, 2, 3]
      [OtherOption 3 False (PyInt 0) [], OtherOption 3 False (PyInt 0) []]) = Inr ()
   \<and> validate example_env (ClientServerMessage SolicitMessage [1, 2, 3]
      [OtherOption 3 False (PyInt 5) [], OtherOption 3 False (PyInt 5) []])
     = Inl (IAIDNotUnique (PyInt 5) ''Option'')"
  by (simp add: example_env_def validate_contains_options_def validate_contains_def infinite_def)

text \<open>
  C8 (tag mismatch). The claim fails for the relay classes: \<^verbatim>\<open>load_from\<close> on a fresh
  \<^verbatim>\<open>RelayForwardMessage\<close> (tag \<open>12\<close>) with a buffer whose tag is \<open>13\<close> returns normally,
  and the instance then has message type \<open>13\<close>. A client-server class raises on the same
  kind of mismatch.
\<close>

theorem relay_load_from_overwrites_message_type:
  "new_element (RelayServer_class RelayForwardMessage)
     = Inr (RelayServerMessage RelayForwardMessage 12 0 None None [])
   \<and> load_from example_env (RelayServerMessage RelayForwardMessage 12 0 None None [])
     ([13, 0] @ replicate 16 0 @ replicate 16 0) 0 (Some 34)
   = Some (Inr (34, RelayServerMessage RelayForwardMessage 13 0
        (Some (Packed (replicate 16 0))) (Some (Packed (replicate 16 0))) []))
   \<and> load_from example_env (ClientServerMessage SolicitMessage [0, 0, 0] []) [2, 1, 2, 3] 0 (Some 4)
   = Some (Inl (ValueError ''The provided buffer does not contain {} data''))"
  by code_simp

text \<open>
  C9 (invalid embedding). If a \<^verbatim>\<open>RelayForwardMessage\<close> has among its options a relay-message
  option, not marked \<^verbatim>\<open>echo_to_relay\<close>, whose message is neither a \<^verbatim>\<open>RelayForwardMessage\<close>
  nor a client-server message, then \<^verbatim>\<open>wrap_response\<close> raises.
\<close>

theorem wrap_response_invalid_embedding:
  assumes "RelayMessageOption False relayed \<in> set opts"
    and "class_of relayed \<noteq> RelayServer_class RelayForwardMessage"
    and "\<forall>c. class_of relayed \<noteq> ClientServer_class c"
  shows "\<exists>e. wrap_response (RelayServerMessage RelayForwardMessage mt hc la pa opts) response = Inl e"
proof -
  from wrap_options_invalid[OF assms] obtain e where "wrap_options opts response [] = Inl e"
    by blast
  then show ?thesis by simp
qed

theorem wrap_response_invalid_embedding_witness:
  "RelayMessageOption False (UnknownMessage 3 [])
      \<in> set [OtherOption 18 True PyNone [1], RelayMessageOption False (UnknownMessage 3 [])]
   \<and> class_of (UnknownMessage 3 []) \<noteq> RelayServer_class RelayForwardMessage
   \<and> (\<forall>c. class_of (UnknownMessage 3 []) \<noteq> ClientServer_class c)
   \<and> (\<exists>e. wrap_response
        (RelayServerMessage RelayForwardMessage 12 1 None None
           [OtherOption 18 True PyNone [1], RelayMessageOption False (UnknownMessage 3 [])])
        (ClientServerMessage ReplyMessage [1, 2, 3] []) = Inl e)"
  using wrap_response_invalid_embedding
    [of "UnknownMessage 3 []"
        "[OtherOption 18 True PyNone [1], RelayMessageOption False (UnknownMessage 3 [])]"
        12 1 None None "ClientServerMessage ReplyMessage [1, 2, 3] []"]
  by simp

text \<open>
  C10 (options are appended). When \<^verbatim>\<open>load_from\<close> returns on a client-server or relay
  message that already holds the options \<open>opts\<close>, the options of the instance are \<open>opts\<close>
  followed by the options that the loop parses from the buffer (what it yields when started
  from the empty list); they are exactly the parsed options only when \<open>opts\<close> was empty.
\<close>

theorem load_from_appends_options:
  "(load_from env (ClientServerMessage cls tid opts) buffer offset len = Some (Inr (n, self')) \<longrightarrow>
      (\<exists>parsed.
          parse_options env buffer offset (length_or len (int (length buffer) - offset)) 4 []
            = Some (Inr (n, parsed))
        \<and> options self' = opts @ parsed
        \<and> (options self' = parsed \<longleftrightarrow> opts = [])))
   \<and> (load_from env (RelayServerMessage rcls mt hc la pa opts) buffer offset len
          = Some (Inr (n, self')) \<longrightarrow>
      (\<exists>parsed.
          parse_options env buffer offset (length_or len (int (length buffer) - offset)) 34 []
            = Some (Inr (n, parsed))
        \<and> options self' = opts @ parsed
        \<and> (options self' = parsed \<longleftrightarrow> opts = [])))"
proof (intro conjI impI)
  assume ok: "load_from env (ClientServerMessage cls tid opts) buffer offset len = Some (Inr (n, self'))"
  let ?max = "length_or len (int (length buffer) - offset)"
  from ok obtain res where loop: "parse_options env buffer offset ?max 4 opts = Some (Inr (n, res))"
    and self': "options self' = res"
    by (auto split: sum.splits if_splits option.splits simp: Let_def)
  from parse_options_from_empty[OF loop] self'
  show "\<exists>parsed. parse_options env buffer offset ?max 4 [] = Some (Inr (n, parsed))
        \<and> options self' = opts @ parsed \<and> (options self' = parsed \<longleftrightarrow> opts = [])"
    by auto
next
  assume ok: "load_from env (RelayServerMessage rcls mt hc la pa opts) buffer offset len
     = Some (Inr (n, self'))"
  let ?max = "length_or len (int (length buffer) - offset)"
  from ok obtain res where loop: "parse_options env buffer offset ?max 34 opts = Some (Inr (n, res))"
    and self': "options self' = res"
    by (auto split: sum.splits if_splits option.splits simp: Let_def)
  from parse_options_from_empty[OF loop] self'
  show "\<exists>parsed. parse_options env buffer offset ?max 34 [] = Some (Inr (n, parsed))
        \<and> options self' = opts @ parsed \<and> (options self' = parsed \<longleftrightarrow> opts = [])"
    by auto
qed

theorem load_from_appends_options_witness:
  "load_from example_env
      (ClientServerMessage SolicitMessage [0, 0, 0] [OtherOption 1 False PyNone []])
      [1, 1, 2, 3, 7, 2, 8, 9] 0 (Some 8)
     = Some (Inr (8, ClientServerMessage SolicitMessage [1, 2, 3]
          [OtherOption 1 False PyNone [], OtherOption 7 False PyNone [8, 9]]))
   \<and> parse_options example_env [1, 1, 2, 3, 7, 2, 8, 9] 0 8 4 []
     = Some (Inr (8, [OtherOption 7 False PyNone [8, 9]]))
   \<and> load_from example_env
      (RelayServerMessage RelayReplyMessage 13 0 None None [OtherOption 1 False PyNone []])
      ([13, 0] @ replicate 16 0 @ replicate 16 0 @ [7, 2, 8, 9]) 0 (Some 38)
     = Some (Inr (38, RelayServerMessage RelayReplyMessage 13 0
          (Some (Packed (replicate 16 0))) (Some (Packed (replicate 16 0)))
          [OtherOption 1 False PyNone [], OtherOption 7 False PyNone [8, 9]]))
   \<and> parse_options example_env ([13, 0] @ replicate 16 0 @ replicate 16 0 @ [7, 2, 8, 9]) 0 38 34 []
     = Some (Inr (38, [OtherOption 7 False PyNone [8, 9]]))"
proof -
  have cs: "load_from example_env
      (ClientServerMessage SolicitMessage [0, 0, 0] [OtherOption 1 False PyNone []])
      [1, 1, 2, 3, 7, 2, 8, 9] 0 (Some 8)
     = Some (Inr (8, ClientServerMessage SolicitMessage [1, 2, 3]
          [OtherOption 1 False PyNone [], OtherOption 7 False PyNone [8, 9]]))"
    by code_simp
  have rs: "load_from example_env
      (RelayServerMessage RelayReplyMessage 13 0 None None [OtherOption 1 False PyNone []])
      ([13, 0] @ replicate 16 0 @ replicate 16 0 @ [7, 2, 8, 9]) 0 (Some 38)
     = Some (Inr (38, RelayServerMessage RelayReplyMessage 13 0
          (Some (Packed (replicate 16 0))) (Some (Packed (replicate 16 0)))
          [OtherOption 1 False PyNone [], OtherOption 7 False PyNone [8, 9]]))"
    by code_simp
  from load_from_appends_options
    [of example_env SolicitMessage "[0, 0, 0]" "[OtherOption 1 False PyNone []]"
        "[1, 1, 2, 3, 7, 2, 8, 9]" 0 "Some 8" 8, THEN conjunct1, rule_format, OF cs]
  have "parse_options example_env [1, 1, 2, 3, 7, 2, 8, 9] 0 8 4 []
     = Some (Inr (8, [OtherOption 7 False PyNone [8, 9]]))"
    by (auto simp add: length_or_def)
  moreover
  from load_from_appends_options
    [where env = example_env and rcls = RelayReplyMessage and mt = 13 and hc = 0
       and la = None and pa = None and opts = "[OtherOption 1 False PyNone []]"
       and buffer = "[13, 0] @ replicate 16 0 @ replicate 16 0 @ [7, 2, 8, 9]"
       and offset = 0 and len = "Some 38" and n = 38,
     THEN conjunct2, rule_format, OF rs]
  have "parse_options example_env ([13, 0] @ replicate 16 0 @ replicate 16 0 @ [7, 2, 8, 9]) 0 38 34 []
     = Some (Inr (38, [OtherOption 7 False PyNone [8, 9]]))"
    by (auto simp add: length_or_def)
  ultimately show ?thesis using cs rs by simp
qed

end
